theory Spec2Isabelle
  imports Main "HOL-Library.Sublist"
begin

section \<open>Python values\<close>

text \<open>
  The values that travel through the library are decoded JSON bodies and the identifiers
  the caller passes: \<^verbatim>\<open>None\<close>, booleans, integers, strings, lists and dictionaries with
  string keys. A dictionary is an association list; Python keeps one entry per key, and
  \<^verbatim>\<open>d.get(k)\<close> reads the entry of \<open>k\<close>. JSON numbers with a fraction (Python floats) are
  left out of the value type.
\<close>

datatype json =
    JNull
  | JBool bool
  | JInt int
  | JStr string
  | JList "json list"
  | JDict "(string \<times> json) list"

text \<open>
  Everything the two source files can raise or let through. \<open>HTTPError\<close> is
  \<^verbatim>\<open>requests.exceptions.HTTPError\<close> with the status code of its response;
  \<open>TransportError\<close> is any other exception of the HTTP client (a connection failure, a
  timeout), by the name of its class. \<open>GerritAPIException\<close> carries its cause
  (\<^verbatim>\<open>raise GerritAPIException from error\<close>). The two reviewer errors carry their message.
  The exception classes of \<^verbatim>\<open>gerrit.utils.exceptions\<close> are kept apart, as in the error
  taxonomy of the specification: none is caught by a handler written for another.
\<close>

datatype exn =
    HTTPError int
  | TransportError string
  | IndexError
  | KeyError
  | TypeError
  | AttributeError
  | ReviewerNotFoundError string
  | ReviewerAlreadyExistsError string
  | GerritAPIException exn

subsection \<open>\<^verbatim>\<open>str\<close> and \<^verbatim>\<open>repr\<close>\<close>

text \<open>
  The f-strings and the \<^verbatim>\<open>%s\<close> format of the source render a value with \<^verbatim>\<open>str\<close>.
  Integers are written in decimal.
\<close>

definition digit_char :: "nat \<Rightarrow> char" where
  "digit_char d = ''0123456789'' ! d"

function dec_nat :: "nat \<Rightarrow> string" where
  "dec_nat n = (if n < 10 then [digit_char n] else dec_nat (n div 10) @ [digit_char (n mod 10)])"
  by pat_completeness auto
termination
  by (relation "measure id") auto

declare dec_nat.simps [simp del]

definition dec_int :: "int \<Rightarrow> string" where
  "dec_int i = (if i < 0 then CHR ''-'' # dec_nat (nat (- i)) else dec_nat (nat i))"

definition hex_char :: "nat \<Rightarrow> char" where
  "hex_char d = ''0123456789abcdef'' ! d"

text \<open>
  \<^verbatim>\<open>repr\<close> of a string: enclosed in single quotes, or in double quotes when the string
  holds a single quote and no double quote; the enclosing quote and the backslash are
  escaped, tab, newline and carriage return are written \<^verbatim>\<open>\t\<close>, \<^verbatim>\<open>\n\<close>, \<^verbatim>\<open>\r\<close>, the other
  control characters as \<^verbatim>\<open>\xhh\<close>. Strings are taken to be ASCII text; a byte above 127
  is left as it is.
\<close>

definition py_escape :: "char \<Rightarrow> char \<Rightarrow> string" where
  "py_escape q c =
     (if c = q \<or> c = CHR 0x5C then [CHR 0x5C, c]
      else if c = CHR 0x09 then [CHR 0x5C, CHR ''t'']
      else if c = CHR 0x0A then [CHR 0x5C, CHR ''n'']
      else if c = CHR 0x0D then [CHR 0x5C, CHR ''r'']
      else if (of_char c :: nat) < 32 \<or> (of_char c :: nat) = 127
        then [CHR 0x5C, CHR ''x'', hex_char ((of_char c :: nat) div 16),
              hex_char ((of_char c :: nat) mod 16)]
      else [c])"

definition py_repr_str :: "string \<Rightarrow> string" where
  "py_repr_str s =
     (let q = (if CHR 0x27 \<in> set s \<and> CHR 0x22 \<notin> set s then CHR 0x22 else CHR 0x27)
      in q # concat (map (py_escape q) s) @ [q])"

fun py_join :: "string \<Rightarrow> string list \<Rightarrow> string" where
  "py_join sep [] = []"
| "py_join sep [x] = x"
| "py_join sep (x # y # ys) = x @ sep @ py_join sep (y # ys)"

fun py_repr :: "json \<Rightarrow> string" where
  "py_repr JNull = ''None''"
| "py_repr (JBool b) = (if b then ''True'' else ''False'')"
| "py_repr (JInt i) = dec_int i"
| "py_repr (JStr s) = py_repr_str s"
| "py_repr (JList xs) = ''['' @ py_join '', '' (map py_repr xs) @ '']''"
| "py_repr (JDict d) =
     ''{'' @ py_join '', '' (map (\<lambda>(k, v). py_repr_str k @ '': '' @ py_repr v) d) @ ''}''"

fun py_str :: "json \<Rightarrow> string" where
  "py_str (JStr s) = s"
| "py_str v = py_repr v"

subsection \<open>Subscription and \<^verbatim>\<open>.get\<close>\<close>

text \<open>
  \<^verbatim>\<open>v[0]\<close>: the first element of a list or the first character of a string, an
  \<^verbatim>\<open>IndexError\<close> when either is empty, a \<^verbatim>\<open>KeyError\<close> on a dictionary (its keys are
  strings, never \<open>0\<close>), a \<^verbatim>\<open>TypeError\<close> on a value that is not subscriptable.
\<close>

fun py_index0 :: "json \<Rightarrow> exn + json" where
  "py_index0 (JList []) = Inl IndexError"
| "py_index0 (JList (x # xs)) = Inr x"
| "py_index0 (JStr []) = Inl IndexError"
| "py_index0 (JStr (c # cs)) = Inr (JStr [c])"
| "py_index0 (JDict d) = Inl KeyError"
| "py_index0 v = Inl TypeError"

text \<open>
  \<^verbatim>\<open>v.get(key)\<close>: on a dictionary the entry of the key, \<^verbatim>\<open>None\<close> when there is none;
  no other value has a method \<^verbatim>\<open>get\<close>.
\<close>

fun py_get :: "json \<Rightarrow> string \<Rightarrow> exn + json" where
  "py_get (JDict d) key = Inr (case map_of d key of None \<Rightarrow> JNull | Some v \<Rightarrow> v)"
| "py_get v key = Inl AttributeError"

section \<open>The HTTP capability\<close>

text \<open>
  The client object \<^verbatim>\<open>gerrit\<close> is not part of the two source files. It is a
  parameter of every operation: its attribute \<^verbatim>\<open>default_headers\<close> and the server behind
  its methods \<^verbatim>\<open>get\<close>, \<^verbatim>\<open>post\<close> and \<^verbatim>\<open>delete\<close>, a function from the server's state and a
  request to a reply and the next state. A reply is the decoded JSON body, an
  \<^verbatim>\<open>HTTPError\<close> with the status code of the response (the specification asks the
  transport to expose it on every failure), or another exception of the transport.
\<close>

datatype verb = GET | POST | PUT | DELETE

record request =
  verb :: verb
  path :: string
  body :: "json option"
  headers :: "json option"

datatype reply =
    Returns json
  | RaisesHTTPError int
  | RaisesOther string

record 's gerrit =
  default_headers :: json
  handler :: "'s \<Rightarrow> request \<Rightarrow> reply \<times> 's"

text \<open>
  The world an operation runs in: the state of the server, every exchange on the wire in
  the order it happened, and the messages written with \<^verbatim>\<open>logger.error\<close>.
\<close>

record 's world =
  server :: 's
  wire :: "(request \<times> reply) list"
  logged :: "string list"

definition gerrit_call :: "'s gerrit \<Rightarrow> request \<Rightarrow> 's world \<Rightarrow> reply \<times> 's world" where
  "gerrit_call g req w =
     (case handler g (server w) req of
        (rep, s') \<Rightarrow> (rep, w\<lparr>server := s', wire := wire w @ [(req, rep)]\<rparr>))"

definition gerrit_get :: "'s gerrit \<Rightarrow> string \<Rightarrow> 's world \<Rightarrow> reply \<times> 's world" where
  "gerrit_get g p = gerrit_call g \<lparr>verb = GET, path = p, body = None, headers = None\<rparr>"

definition gerrit_post ::
  "'s gerrit \<Rightarrow> string \<Rightarrow> json \<Rightarrow> json \<Rightarrow> 's world \<Rightarrow> reply \<times> 's world" where
  "gerrit_post g p js hs =
     gerrit_call g \<lparr>verb = POST, path = p, body = Some js, headers = Some hs\<rparr>"

definition gerrit_delete :: "'s gerrit \<Rightarrow> string \<Rightarrow> 's world \<Rightarrow> reply \<times> 's world" where
  "gerrit_delete g p = gerrit_call g \<lparr>verb = DELETE, path = p, body = None, headers = None\<rparr>"

section \<open>The reviewer entity: \<^verbatim>\<open>GerritChangeReviewer\<close>\<close>

text \<open>
  The attributes \<^verbatim>\<open>account\<close>, \<^verbatim>\<open>change\<close> and \<^verbatim>\<open>endpoint\<close>. The attribute \<^verbatim>\<open>gerrit\<close> is the
  client, passed to each method as its first argument. A method takes the entity and the
  world and returns its result, the entity as the method leaves it and the world.
\<close>

record reviewer =
  account :: json
  change :: json
  endpoint :: string

text \<open>
  Modelled from the spec: the initialiser of the base class \<^verbatim>\<open>GerritBase\<close>
  (\<^verbatim>\<open>gerrit/utils/gerritbase.py\<close>), which the constructor of the entity calls last and
  which is not among the source files. The specification describes the entity as a
  lightweight handle holding the account, the change and a reference to the transport,
  and counts the HTTP calls of every operation without any call made by a constructor:
  the initialiser sends nothing, changes no attribute and does not fail.
\<close>

definition GerritBase_init :: "reviewer \<Rightarrow> 's world \<Rightarrow> (exn + reviewer) \<times> 's world" where
  "GerritBase_init self w = (Inr self, w)"

definition GerritChangeReviewer_init ::
  "json \<Rightarrow> json \<Rightarrow> 's world \<Rightarrow> (exn + reviewer) \<times> 's world" where
  "GerritChangeReviewer_init acc chg w =
     GerritBase_init
       \<lparr>account = acc, change = chg,
        endpoint = ''/changes/'' @ py_str chg @ ''/reviewers/'' @ py_str acc\<rparr> w"

text \<open>
  The result of a method that drops the value of its call, or passes it on as it is. No
  method of the entity has a handler: an exception of the transport leaves the method.
\<close>

fun dropped :: "reply \<Rightarrow> exn + unit" where
  "dropped (Returns v) = Inr ()"
| "dropped (RaisesHTTPError code) = Inl (HTTPError code)"
| "dropped (RaisesOther e) = Inl (TransportError e)"

fun passed :: "reply \<Rightarrow> exn + json" where
  "passed (Returns v) = Inr v"
| "passed (RaisesHTTPError code) = Inl (HTTPError code)"
| "passed (RaisesOther e) = Inl (TransportError e)"

definition GerritChangeReviewer_delete ::
  "'s gerrit \<Rightarrow> reviewer \<Rightarrow> json \<Rightarrow> 's world \<Rightarrow> (exn + unit) \<times> reviewer \<times> 's world" where
  "GerritChangeReviewer_delete g self input w =
     (if input = JNull
      then (case gerrit_delete g (endpoint self) w of (rep, w') \<Rightarrow> (dropped rep, self, w'))
      else (case gerrit_post g (endpoint self @ ''/delete'') input (default_headers g) w of
              (rep, w') \<Rightarrow> (dropped rep, self, w')))"

definition GerritChangeReviewer_list_votes ::
  "'s gerrit \<Rightarrow> reviewer \<Rightarrow> 's world \<Rightarrow> (exn + json) \<times> reviewer \<times> 's world" where
  "GerritChangeReviewer_list_votes g self w =
     (case gerrit_get g (endpoint self @ ''/votes/'') w of (rep, w') \<Rightarrow> (passed rep, self, w'))"

definition GerritChangeReviewer_delete_vote ::
  "'s gerrit \<Rightarrow> reviewer \<Rightarrow> json \<Rightarrow> json \<Rightarrow> 's world \<Rightarrow> (exn + unit) \<times> reviewer \<times> 's world"
  where
  "GerritChangeReviewer_delete_vote g self label input w =
     (let ep = endpoint self @ ''/votes/'' @ py_str label in
      if input = JNull
      then (case gerrit_delete g ep w of (rep, w') \<Rightarrow> (dropped rep, self, w'))
      else (case gerrit_post g (ep @ ''/delete'') input (default_headers g) w of
              (rep, w') \<Rightarrow> (dropped rep, self, w')))"

section \<open>The reviewer collection: \<^verbatim>\<open>GerritChangeReviewers\<close>\<close>

record reviewers =
  rs_change :: json
  rs_endpoint :: string

definition GerritChangeReviewers_init :: "json \<Rightarrow> reviewers" where
  "GerritChangeReviewers_init chg =
     \<lparr>rs_change = chg, rs_endpoint = ''/changes/'' @ py_str chg @ ''/reviewers''\<rparr>"

definition GerritChangeReviewers_list ::
  "'s gerrit \<Rightarrow> reviewers \<Rightarrow> 's world \<Rightarrow> (exn + json) \<times> 's world" where
  "GerritChangeReviewers_list g self w =
     (case gerrit_get g (rs_endpoint self @ ''/'') w of (rep, w') \<Rightarrow> (passed rep, w'))"

text \<open>
  \<^verbatim>\<open>get\<close>: the lookup, then \<^verbatim>\<open>result[0].get("_account_id")\<close> and the constructor, all
  inside the \<^verbatim>\<open>try\<close>; the handler catches \<^verbatim>\<open>HTTPError\<close> only, so the errors of the
  subscription and of \<^verbatim>\<open>.get\<close> and the other exceptions of the transport leave the
  method as they are. The message is formatted from the parameter \<^verbatim>\<open>account\<close>, which the
  body has not yet reassigned when the lookup raises.
\<close>

definition GerritChangeReviewers_get ::
  "'s gerrit \<Rightarrow> reviewers \<Rightarrow> json \<Rightarrow> 's world \<Rightarrow> (exn + reviewer) \<times> 's world" where
  "GerritChangeReviewers_get g self acc w =
     (case gerrit_get g (rs_endpoint self @ ''/'' @ py_str acc) w of
        (Returns result, w1) \<Rightarrow>
          (case py_index0 result of
             Inl e \<Rightarrow> (Inl e, w1)
           | Inr first \<Rightarrow>
               (case py_get first ''_account_id'' of
                  Inl e \<Rightarrow> (Inl e, w1)
                | Inr acc' \<Rightarrow> GerritChangeReviewer_init acc' (rs_change self) w1))
      | (RaisesHTTPError code, w1) \<Rightarrow>
          (if code = 404 \<or> code = 400
           then (let message = ''Reviewer '' @ py_str acc @ '' does not exist''
                 in (Inl (ReviewerNotFoundError message),
                     w1\<lparr>logged := logged w1 @ [message]\<rparr>))
           else (Inl (GerritAPIException (HTTPError code)), w1))
      | (RaisesOther e, w1) \<Rightarrow> (Inl (TransportError e), w1))"

text \<open>
  \<^verbatim>\<open>add\<close>: the \<^verbatim>\<open>try\<close> holds the first \<^verbatim>\<open>get\<close> and the raise of
  \<^verbatim>\<open>ReviewerAlreadyExistsError\<close>; its handler catches \<^verbatim>\<open>ReviewerNotFoundError\<close> only,
  posts the input and returns what the second \<^verbatim>\<open>get\<close> returns. The reply of the POST is
  dropped; an exception of the POST leaves the method.
\<close>

definition GerritChangeReviewers_add ::
  "'s gerrit \<Rightarrow> reviewers \<Rightarrow> json \<Rightarrow> 's world \<Rightarrow> (exn + reviewer) \<times> 's world" where
  "GerritChangeReviewers_add g self input w =
     (case py_get input ''reviewer'' of
        Inl e \<Rightarrow> (Inl e, w)
      | Inr rv \<Rightarrow>
          (case GerritChangeReviewers_get g self rv w of
             (Inr found, w1) \<Rightarrow>
               (let message = ''Reviewer '' @ py_str rv @ '' already exists''
                in (Inl (ReviewerAlreadyExistsError message),
                    w1\<lparr>logged := logged w1 @ [message]\<rparr>))
           | (Inl (ReviewerNotFoundError m), w1) \<Rightarrow>
               (case gerrit_post g (rs_endpoint self) input (default_headers g) w1 of
                  (Returns v, w2) \<Rightarrow> GerritChangeReviewers_get g self rv w2
                | (RaisesHTTPError code, w2) \<Rightarrow> (Inl (HTTPError code), w2)
                | (RaisesOther e, w2) \<Rightarrow> (Inl (TransportError e), w2))
           | (Inl e, w1) \<Rightarrow> (Inl e, w1)))"

section \<open>The account model: \<^verbatim>\<open>GerritAccount\<close>\<close>

text \<open>
  The attributes of the model, set from the keyword arguments of the constructor. The
  client of this file is the older one: \<^verbatim>\<open>get_endpoint_url\<close> builds the URL of an
  endpoint, \<^verbatim>\<open>requester.put\<close> sends the request and returns the raw response or raises,
  \<^verbatim>\<open>decode_response\<close> decodes a raw response or raises. None of the three is among the
  source files; they are fields of the client, over any type \<open>'r\<close> of raw responses.
\<close>

record gerrit_account =
  username :: json
  registered_on :: json
  account_id :: json
  name :: json
  email :: json

record ('s, 'r) requester_gerrit =
  rq_default_headers :: json
  get_endpoint_url :: "string \<Rightarrow> string"
  requester :: "'s \<Rightarrow> request \<Rightarrow> (exn + 'r) \<times> 's"
  decode_response :: "'r \<Rightarrow> exn + json"

record ('s, 'r) rq_world =
  rq_server :: 's
  rq_wire :: "(request \<times> (exn + 'r)) list"

definition requester_put ::
  "('s, 'r) requester_gerrit \<Rightarrow> string \<Rightarrow> json \<Rightarrow> json \<Rightarrow> ('s, 'r) rq_world
     \<Rightarrow> (exn + 'r) \<times> ('s, 'r) rq_world" where
  "requester_put g url js hs w =
     (let req = \<lparr>verb = PUT, path = url, body = Some js, headers = Some hs\<rparr> in
      case requester g (rq_server w) req of
        (rep, s') \<Rightarrow> (rep, w\<lparr>rq_server := s', rq_wire := rq_wire w @ [(req, rep)]\<rparr>))"

text \<open>
  \<^verbatim>\<open>set_name\<close>. The decorator \<^verbatim>\<open>check\<close> (\<^verbatim>\<open>gerrit.utils.common\<close>) is not among the source
  files: it is the parameter \<open>chk\<close>, a guard on the argument that runs before the body
  and either raises or lets the body run as written.
\<close>

definition set_name ::
  "(json \<Rightarrow> exn option) \<Rightarrow> ('s, 'r) requester_gerrit \<Rightarrow> gerrit_account \<Rightarrow> json
     \<Rightarrow> ('s, 'r) rq_world \<Rightarrow> (exn + json) \<times> gerrit_account \<times> ('s, 'r) rq_world" where
  "set_name chk g self input w =
     (case chk input of
        Some e \<Rightarrow> (Inl e, self, w)
      | None \<Rightarrow>
          (let endpoint = ''/accounts/'' @ py_str (username self) @ ''/name'';
               base_url = get_endpoint_url g endpoint
           in case requester_put g base_url input (rq_default_headers g) w of
                (Inl e, w1) \<Rightarrow> (Inl e, self, w1)
              | (Inr response, w1) \<Rightarrow>
                  (case decode_response g response of
                     Inl e \<Rightarrow> (Inl e, self, w1)
                   | Inr result \<Rightarrow> (Inr result, self\<lparr>name := result\<rparr>, w1))))"

section \<open>Requests named in the statements\<close>

text \<open>
  The lookup that \<^verbatim>\<open>get\<close> sends for an account, the request that \<^verbatim>\<open>add\<close> posts, the
  request of a removal (plain, or through the \<^verbatim>\<open>/delete\<close> variant when a payload is
  given), the path of a reviewer of a change, the world after the server has answered
  one request, and the exchanges that a call has added to the wire.
\<close>

definition lookup_request :: "reviewers \<Rightarrow> json \<Rightarrow> request" where
  "lookup_request self acc =
     \<lparr>verb = GET, path = rs_endpoint self @ ''/'' @ py_str acc, body = None, headers = None\<rparr>"

definition add_request :: "'s gerrit \<Rightarrow> reviewers \<Rightarrow> json \<Rightarrow> request" where
  "add_request g self input =
     \<lparr>verb = POST, path = rs_endpoint self, body = Some input,
      headers = Some (default_headers g)\<rparr>"

definition delete_request :: "'s gerrit \<Rightarrow> string \<Rightarrow> json \<Rightarrow> request" where
  "delete_request g p input =
     (if input = JNull then \<lparr>verb = DELETE, path = p, body = None, headers = None\<rparr>
      else \<lparr>verb = POST, path = p @ ''/delete'', body = Some input,
            headers = Some (default_headers g)\<rparr>)"

definition reviewer_path :: "json \<Rightarrow> json \<Rightarrow> string" where
  "reviewer_path chg acc = ''/changes/'' @ py_str chg @ ''/reviewers/'' @ py_str acc"

definition after_call :: "'s gerrit \<Rightarrow> request \<Rightarrow> 's world \<Rightarrow> 's world" where
  "after_call g req w =
     w\<lparr>server := snd (handler g (server w) req),
       wire := wire w @ [(req, fst (handler g (server w) req))]\<rparr>"

definition news :: "'s world \<Rightarrow> 's world \<Rightarrow> (request \<times> reply) list" where
  "news w w' = drop (length (wire w)) (wire w')"

section \<open>Servers to run the operations against\<close>

text \<open>
  A small server for the change \<^verbatim>\<open>c1\<close>. Its state is the list of the reviewers of the
  change, by user name and account id. A lookup answers with the record of the reviewer
  or with status 404; adding a known account appends it, an unknown one is refused with
  422 and a body without a reviewer name with 400.
\<close>

definition toy_accounts :: "(string \<times> int) list" where
  "toy_accounts = [(''john.doe'', 1000096), (''jane.roe'', 1000097)]"

definition toy_handler :: "(string \<times> int) list \<Rightarrow> request \<Rightarrow> reply \<times> (string \<times> int) list" where
  "toy_handler s r =
     (case verb r of
        GET \<Rightarrow>
          (case find (\<lambda>(n, i). path r = ''/changes/c1/reviewers/'' @ n) s of
             Some (n, i) \<Rightarrow>
               (Returns (JList [JDict [(''_account_id'', JInt i), (''username'', JStr n)]]), s)
           | None \<Rightarrow> (RaisesHTTPError 404, s))
      | POST \<Rightarrow>
          (if path r = ''/changes/c1/reviewers''
           then (case body r of
                   Some (JDict d) \<Rightarrow>
                     (case map_of d ''reviewer'' of
                        Some (JStr n) \<Rightarrow>
                          (case map_of toy_accounts n of
                             Some i \<Rightarrow> (Returns (JDict [(''input'', JStr n)]), s @ [(n, i)])
                           | None \<Rightarrow> (RaisesHTTPError 422, s))
                      | _ \<Rightarrow> (RaisesHTTPError 400, s))
                 | _ \<Rightarrow> (RaisesHTTPError 400, s))
           else (Returns JNull, s))
      | DELETE \<Rightarrow> (Returns JNull, s)
      | PUT \<Rightarrow> (RaisesHTTPError 405, s))"

definition toy_gerrit :: "(string \<times> int) list gerrit" where
  "toy_gerrit = \<lparr>default_headers = JDict [(''Content-Type'', JStr ''application/json'')],
                 handler = toy_handler\<rparr>"

definition toy_world :: "(string \<times> int) list \<Rightarrow> (string \<times> int) list world" where
  "toy_world s = \<lparr>server = s, wire = [], logged = []\<rparr>"

definition c1 :: reviewers where
  "c1 = GerritChangeReviewers_init (JStr ''c1'')"

text \<open>A server that answers from a script, one reply per request.\<close>

definition scripted :: "reply list \<Rightarrow> request \<Rightarrow> reply \<times> reply list" where
  "scripted s r = (case s of [] \<Rightarrow> (RaisesOther ''ConnectionError'', []) | x # xs \<Rightarrow> (x, xs))"

definition scripted_gerrit :: "reply list gerrit" where
  "scripted_gerrit = \<lparr>default_headers = JDict [(''Content-Type'', JStr ''application/json'')],
                      handler = scripted\<rparr>"

definition scripted_world :: "reply list \<Rightarrow> reply list world" where
  "scripted_world s = \<lparr>server = s, wire = [], logged = []\<rparr>"

text \<open>The entity of \<^verbatim>\<open>john.doe\<close> on the change \<^verbatim>\<open>c1\<close>.\<close>

definition john :: reviewer where
  "john = \<lparr>account = JInt 1000096, change = JStr ''c1'',
           endpoint = ''/changes/c1/reviewers/1000096''\<rparr>"

text \<open>
  A client for the account model. A raw response is a status code and a body; the server
  answers a PUT of a name with status 200 and the name, \<^verbatim>\<open>decode_response\<close> raises on a
  status outside 2xx, and the guard admits a dictionary, as the annotation of \<^verbatim>\<open>input_\<close>
  asks.
\<close>

definition toy_requester :: "unit \<Rightarrow> request \<Rightarrow> (exn + int \<times> json) \<times> unit" where
  "toy_requester s r =
     (case body r of
        Some (JDict d) \<Rightarrow>
          (case map_of d ''name'' of
             Some v \<Rightarrow> (Inr (200, v), s)
           | None \<Rightarrow> (Inr (400, JNull), s))
      | _ \<Rightarrow> (Inr (400, JNull), s))"

definition toy_decode :: "int \<times> json \<Rightarrow> exn + json" where
  "toy_decode r = (if 200 \<le> fst r \<and> fst r < 300 then Inr (snd r) else Inl (HTTPError (fst r)))"

definition toy_client :: "(unit, int \<times> json) requester_gerrit" where
  "toy_client =
     \<lparr>rq_default_headers = JDict [(''Content-Type'', JStr ''application/json'')],
      get_endpoint_url = (\<lambda>e. ''https://gerrit.example.org'' @ e),
      requester = toy_requester,
      decode_response = toy_decode\<rparr>"

definition check_dict :: "json \<Rightarrow> exn option" where
  "check_dict v = (case v of JDict d \<Rightarrow> None | _ \<Rightarrow> Some TypeError)"

definition jdoe :: gerrit_account where
  "jdoe = \<lparr>username = JStr ''john.doe'', registered_on = JStr ''2013-02-01 09:59:32.126000000'',
           account_id = JInt 1000096, name = JStr ''John Doe'',
           email = JStr ''john.doe@example.com''\<rparr>"

section \<open>The operations, one case per reply\<close>

lemma gerrit_call_eq:
  "gerrit_call g req w = (fst (handler g (server w) req), after_call g req w)"
  by (simp add: gerrit_call_def after_call_def split: prod.splits)

lemma get_cases:
  "GerritChangeReviewers_get g c a w =
     (case fst (handler g (server w) (lookup_request c a)) of
        Returns result \<Rightarrow>
          (case py_index0 result of
             Inl e \<Rightarrow> (Inl e, after_call g (lookup_request c a) w)
           | Inr first \<Rightarrow>
               (case py_get first ''_account_id'' of
                  Inl e \<Rightarrow> (Inl e, after_call g (lookup_request c a) w)
                | Inr acc' \<Rightarrow>
                    (Inr \<lparr>account = acc', change = rs_change c,
                          endpoint = ''/changes/'' @ py_str (rs_change c) @ ''/reviewers/''
                                     @ py_str acc'\<rparr>,
                     after_call g (lookup_request c a) w)))
      | RaisesHTTPError code \<Rightarrow>
          (if code = 404 \<or> code = 400
           then (Inl (ReviewerNotFoundError (''Reviewer '' @ py_str a @ '' does not exist'')),
                 (after_call g (lookup_request c a) w)
                   \<lparr>logged := logged w @ [''Reviewer '' @ py_str a @ '' does not exist'']\<rparr>)
           else (Inl (GerritAPIException (HTTPError code)), after_call g (lookup_request c a) w))
      | RaisesOther e \<Rightarrow> (Inl (TransportError e), after_call g (lookup_request c a) w))"
  by (simp add: GerritChangeReviewers_get_def gerrit_get_def gerrit_call_eq lookup_request_def
      GerritChangeReviewer_init_def GerritBase_init_def after_call_def Let_def
      split: reply.splits sum.splits)

lemma get_world:
  "wire (snd (GerritChangeReviewers_get g c a w))
     = wire w @ [(lookup_request c a, fst (handler g (server w) (lookup_request c a)))]
   \<and> server (snd (GerritChangeReviewers_get g c a w))
     = snd (handler g (server w) (lookup_request c a))"
  by (simp add: get_cases after_call_def split: reply.splits sum.splits)

lemma py_index0_error:
  "py_index0 v = Inl e \<Longrightarrow> e = IndexError \<or> e = KeyError \<or> e = TypeError"
  by (induction v rule: py_index0.induct) auto

lemma py_get_error: "py_get v k = Inl e \<Longrightarrow> e = AttributeError"
  by (cases v) auto

lemma get_not_found:
  "fst (GerritChangeReviewers_get g c a w) = Inl (ReviewerNotFoundError m) \<Longrightarrow>
     \<exists>code. (code = 404 \<or> code = 400)
        \<and> fst (handler g (server w) (lookup_request c a)) = RaisesHTTPError code"
  by (auto simp add: get_cases split: reply.splits sum.splits if_splits
      dest: py_index0_error py_get_error)

lemma py_get_dict: "py_get v k = Inr x \<Longrightarrow> \<exists>d. v = JDict d"
  by (cases v) auto

lemma record_shape:
  assumes "py_index0 result = Inr first" and "py_get first k = Inr x"
  shows "\<exists>d rest. result = JList (JDict d # rest) \<and> first = JDict d"
proof -
  from assms(2) obtain d where d: "first = JDict d"
    using py_get_dict by blast
  from assms(1) d show ?thesis
    by (cases result rule: py_index0.cases) auto
qed

lemma get_entity:
  assumes "fst (GerritChangeReviewers_get g c a w) = Inr r"
  shows "\<exists>d rest. fst (handler g (server w) (lookup_request c a)) = Returns (JList (JDict d # rest))
        \<and> py_get (JDict d) ''_account_id'' = Inr (account r) \<and> change r = rs_change c
        \<and> endpoint r = ''/changes/'' @ py_str (change r) @ ''/reviewers/'' @ py_str (account r)"
proof (cases "fst (handler g (server w) (lookup_request c a))")
  case (Returns result)
  with assms obtain first x where first: "py_index0 result = Inr first"
    and x: "py_get first ''_account_id'' = Inr x"
    and r: "r = \<lparr>account = x, change = rs_change c,
                  endpoint = ''/changes/'' @ py_str (rs_change c) @ ''/reviewers/'' @ py_str x\<rparr>"
    by (auto simp add: get_cases split: sum.splits)
  from record_shape [OF first x] obtain d rest
    where "result = JList (JDict d # rest)" and "first = JDict d"
    by blast
  with Returns x r show ?thesis by simp
next
  case (RaisesHTTPError code)
  with assms show ?thesis by (simp add: get_cases split: if_splits)
next
  case (RaisesOther e)
  with assms show ?thesis by (simp add: get_cases)
qed

lemma add_cases:
  "GerritChangeReviewers_add g c input w =
     (case py_get input ''reviewer'' of
        Inl e \<Rightarrow> (Inl e, w)
      | Inr rv \<Rightarrow>
          (case GerritChangeReviewers_get g c rv w of
             (Inr found, w1) \<Rightarrow>
               (Inl (ReviewerAlreadyExistsError (''Reviewer '' @ py_str rv @ '' already exists'')),
                w1\<lparr>logged := logged w1 @ [''Reviewer '' @ py_str rv @ '' already exists'']\<rparr>)
           | (Inl (ReviewerNotFoundError m), w1) \<Rightarrow>
               (case fst (handler g (server w1) (add_request g c input)) of
                  Returns v \<Rightarrow>
                    GerritChangeReviewers_get g c rv (after_call g (add_request g c input) w1)
                | RaisesHTTPError code \<Rightarrow>
                    (Inl (HTTPError code), after_call g (add_request g c input) w1)
                | RaisesOther e \<Rightarrow>
                    (Inl (TransportError e), after_call g (add_request g c input) w1))
           | (Inl e, w1) \<Rightarrow> (Inl e, w1)))"
  by (simp add: GerritChangeReviewers_add_def gerrit_post_def gerrit_call_eq add_request_def
      Let_def split: sum.splits prod.splits exn.splits reply.splits)

lemma init_entity:
  "GerritChangeReviewer_init acc chg w0 = (x, w0') \<longleftrightarrow>
     x = Inr \<lparr>account = acc, change = chg, endpoint = reviewer_path chg acc\<rparr> \<and> w0' = w0"
  by (auto simp add: GerritChangeReviewer_init_def GerritBase_init_def reviewer_path_def)

lemma delete_cases:
  "GerritChangeReviewer_delete g self input w =
     (dropped (fst (handler g (server w) (delete_request g (endpoint self) input))), self,
      after_call g (delete_request g (endpoint self) input) w)"
  by (simp add: GerritChangeReviewer_delete_def delete_request_def gerrit_delete_def
      gerrit_post_def gerrit_call_eq)

lemma delete_vote_cases:
  "GerritChangeReviewer_delete_vote g self label input w =
     (dropped (fst (handler g (server w)
                 (delete_request g (endpoint self @ ''/votes/'' @ py_str label) input))), self,
      after_call g (delete_request g (endpoint self @ ''/votes/'' @ py_str label) input) w)"
  by (simp add: GerritChangeReviewer_delete_vote_def delete_request_def gerrit_delete_def
      gerrit_post_def gerrit_call_eq Let_def)

lemma list_votes_cases:
  "GerritChangeReviewer_list_votes g self w =
     (passed (fst (handler g (server w)
                \<lparr>verb = GET, path = endpoint self @ ''/votes/'', body = None, headers = None\<rparr>)),
      self,
      after_call g \<lparr>verb = GET, path = endpoint self @ ''/votes/'', body = None, headers = None\<rparr> w)"
  by (simp add: GerritChangeReviewer_list_votes_def gerrit_get_def gerrit_call_eq)

section \<open>The servers, step by step\<close>

lemma scripted_step [simp]:
  "handler scripted_gerrit (x # xs) r = (x, xs)"
  "handler scripted_gerrit [] r = (RaisesOther ''ConnectionError'', [])"
  "server (scripted_world s) = s"
  "wire (scripted_world s) = []"
  by (simp_all add: scripted_gerrit_def scripted_def scripted_world_def)

lemma toy_step [simp]:
  "handler toy_gerrit = toy_handler"
  "default_headers toy_gerrit = JDict [(''Content-Type'', JStr ''application/json'')]"
  "server (toy_world s) = s"
  "wire (toy_world s) = []"
  "logged (toy_world s) = []"
  by (simp_all add: toy_gerrit_def toy_world_def)

lemma c1_simps [simp]:
  "rs_change c1 = JStr ''c1''"
  "rs_endpoint c1 = ''/changes/c1/reviewers''"
  by (simp_all add: c1_def GerritChangeReviewers_init_def)

lemma toy_lookup_absent:
  "toy_handler [] (lookup_request c1 a) = (RaisesHTTPError 404, [])"
  by (simp add: toy_handler_def lookup_request_def)

lemma toy_lookup_john:
  "toy_handler [(''john.doe'', 1000096)] (lookup_request c1 (JStr ''john.doe''))
     = (Returns (JList [JDict [(''_account_id'', JInt 1000096), (''username'', JStr ''john.doe'')]]),
        [(''john.doe'', 1000096)])"
  by (simp add: toy_handler_def lookup_request_def)

lemma toy_add_john:
  "toy_handler [] (add_request toy_gerrit c1 (JDict [(''reviewer'', JStr ''john.doe'')]))
     = (Returns (JDict [(''input'', JStr ''john.doe'')]), [(''john.doe'', 1000096)])"
  by (simp add: toy_handler_def add_request_def toy_accounts_def)

lemma toy_add_nobody:
  "toy_handler [] (add_request toy_gerrit c1 (JDict [(''reviewer'', JStr ''nobody'')]))
     = (RaisesHTTPError 422, [])"
  by (simp add: toy_handler_def add_request_def toy_accounts_def)

lemma toy_add_empty:
  "toy_handler [] (add_request toy_gerrit c1 (JDict [])) = (RaisesHTTPError 400, [])"
  by (simp add: toy_handler_def add_request_def)

lemma toy_get_absent:
  "GerritChangeReviewers_get toy_gerrit c1 a (toy_world [])
     = (Inl (ReviewerNotFoundError (''Reviewer '' @ py_str a @ '' does not exist'')),
        \<lparr>server = [], wire = [(lookup_request c1 a, RaisesHTTPError 404)],
         logged = [''Reviewer '' @ py_str a @ '' does not exist'']\<rparr>)"
  by (simp add: get_cases toy_lookup_absent after_call_def toy_world_def)

lemma toy_add_cc:
  "toy_handler [] (add_request toy_gerrit c1 (JDict [(''state'', JStr ''CC'')]))
     = (RaisesHTTPError 400, [])"
  by (simp add: toy_handler_def add_request_def)

lemma toy_get_john:
  "GerritChangeReviewers_get toy_gerrit c1 (JStr ''john.doe'') (toy_world [(''john.doe'', 1000096)])
     = (Inr \<lparr>account = JInt 1000096, change = JStr ''c1'',
             endpoint = ''/changes/c1/reviewers/1000096''\<rparr>,
        \<lparr>server = [(''john.doe'', 1000096)],
         wire = [(lookup_request c1 (JStr ''john.doe''),
                  Returns (JList [JDict [(''_account_id'', JInt 1000096),
                                         (''username'', JStr ''john.doe'')]]))],
         logged = []\<rparr>)"
  by (simp add: get_cases toy_lookup_john after_call_def toy_world_def
      dec_int_def dec_nat.simps digit_char_def)

lemma john_init:
  "GerritChangeReviewer_init (JInt 1000096) (JStr ''c1'') (toy_world s) = (Inr john, toy_world s)"
  by (simp add: init_entity john_def reviewer_path_def dec_int_def dec_nat.simps digit_char_def)

lemma john_path: "reviewer_path (JStr ''c1'') (JInt 1000096) = ''/changes/c1/reviewers/1000096''"
  by (simp add: reviewer_path_def dec_int_def dec_nat.simps digit_char_def)

lemma toy_get_john_at:
  "GerritChangeReviewers_get toy_gerrit c1 (JStr ''john.doe'')
      \<lparr>server = [(''john.doe'', 1000096)], wire = xs, logged = ls\<rparr>
     = (Inr john,
        \<lparr>server = [(''john.doe'', 1000096)],
         wire = xs @ [(lookup_request c1 (JStr ''john.doe''),
                  Returns (JList [JDict [(''_account_id'', JInt 1000096),
                                         (''username'', JStr ''john.doe'')]]))],
         logged = ls\<rparr>)"
  by (simp add: get_cases toy_lookup_john after_call_def john_def
      dec_int_def dec_nat.simps digit_char_def)

lemma toy_add_john_run:
  "GerritChangeReviewers_add toy_gerrit c1 (JDict [(''reviewer'', JStr ''john.doe'')]) (toy_world [])
     = (Inr john,
        \<lparr>server = [(''john.doe'', 1000096)],
         wire = [(lookup_request c1 (JStr ''john.doe''), RaisesHTTPError 404),
                 (add_request toy_gerrit c1 (JDict [(''reviewer'', JStr ''john.doe'')]),
                  Returns (JDict [(''input'', JStr ''john.doe'')])),
                 (lookup_request c1 (JStr ''john.doe''),
                  Returns (JList [JDict [(''_account_id'', JInt 1000096),
                                         (''username'', JStr ''john.doe'')]]))],
         logged = [''Reviewer john.doe does not exist'']\<rparr>)"
  by (simp add: add_cases toy_get_absent toy_add_john after_call_def toy_get_john_at)

section \<open>Adding a reviewer who is not on the change\<close>

text \<open>
  Claim C1, as the specification states it: whenever the first \<^verbatim>\<open>get\<close> of \<^verbatim>\<open>add\<close> fails
  with \<^verbatim>\<open>ReviewerNotFoundError\<close>, \<^verbatim>\<open>add\<close> sends one POST and then one further GET and
  returns the entity of that second \<^verbatim>\<open>get\<close>. It fails when the server refuses the POST:
  \<^verbatim>\<open>nobody\<close> is not a reviewer of \<^verbatim>\<open>c1\<close>, the POST is answered with 422, \<^verbatim>\<open>add\<close> raises that
  \<^verbatim>\<open>HTTPError\<close>, and the POST is the last request on the wire.
\<close>

theorem add_absent_counterexample:
  "fst (GerritChangeReviewers_get toy_gerrit c1 (JStr ''nobody'') (toy_world []))
     = Inl (ReviewerNotFoundError ''Reviewer nobody does not exist'')
   \<and> fst (GerritChangeReviewers_add toy_gerrit c1 (JDict [(''reviewer'', JStr ''nobody'')])
            (toy_world []))
     = Inl (HTTPError 422)
   \<and> map fst (wire (snd (GerritChangeReviewers_add toy_gerrit c1
                            (JDict [(''reviewer'', JStr ''nobody'')]) (toy_world []))))
     = [\<lparr>verb = GET, path = ''/changes/c1/reviewers/nobody'', body = None, headers = None\<rparr>,
        \<lparr>verb = POST, path = ''/changes/c1/reviewers'',
         body = Some (JDict [(''reviewer'', JStr ''nobody'')]),
         headers = Some (JDict [(''Content-Type'', JStr ''application/json'')])\<rparr>]"
  by (simp add: add_cases toy_get_absent toy_add_nobody after_call_def)
    (simp add: lookup_request_def add_request_def)

text \<open>
  Claim C1, amended: when the reviewer named by the input is not resolvable (the first
  \<^verbatim>\<open>get\<close> fails with \<^verbatim>\<open>ReviewerNotFoundError\<close>, after its one lookup), \<^verbatim>\<open>add\<close> sends exactly
  one POST to the endpoint of the collection, \<^verbatim>\<open>/changes/{change}/reviewers\<close>, with the
  input as body. When the POST returns, whatever it returns, exactly one further lookup
  of the same reviewer follows, and \<^verbatim>\<open>add\<close> ends as that second \<^verbatim>\<open>get\<close> ends, with its
  entity or its error. When the POST raises, nothing more is sent and \<^verbatim>\<open>add\<close> raises the
  same error.
\<close>

theorem add_absent:
  assumes "py_get input ''reviewer'' = Inr rv"
      and "GerritChangeReviewers_get g c rv w = (Inl (ReviewerNotFoundError m), w1)"
  shows "wire w1 = wire w @ [(lookup_request c rv, fst (handler g (server w) (lookup_request c rv)))]
       \<and> add_request g (GerritChangeReviewers_init chg) input
           = \<lparr>verb = POST, path = ''/changes/'' @ py_str chg @ ''/reviewers'',
              body = Some input, headers = Some (default_headers g)\<rparr>
       \<and> (case fst (handler g (server w1) (add_request g c input)) of
            Returns v \<Rightarrow>
              GerritChangeReviewers_add g c input w
                = GerritChangeReviewers_get g c rv (after_call g (add_request g c input) w1)
              \<and> wire (snd (GerritChangeReviewers_add g c input w))
                = wire w1 @ [(add_request g c input, Returns v),
                     (lookup_request c rv,
                      fst (handler g (snd (handler g (server w1) (add_request g c input)))
                             (lookup_request c rv)))]
          | RaisesHTTPError code \<Rightarrow>
              GerritChangeReviewers_add g c input w
                = (Inl (HTTPError code), after_call g (add_request g c input) w1)
              \<and> wire (snd (GerritChangeReviewers_add g c input w))
                = wire w1 @ [(add_request g c input, RaisesHTTPError code)]
          | RaisesOther e \<Rightarrow>
              GerritChangeReviewers_add g c input w
                = (Inl (TransportError e), after_call g (add_request g c input) w1)
              \<and> wire (snd (GerritChangeReviewers_add g c input w))
                = wire w1 @ [(add_request g c input, RaisesOther e)])"
proof -
  have first: "wire w1 = wire w @ [(lookup_request c rv, fst (handler g (server w) (lookup_request c rv)))]"
    using get_world [of g c rv w] assms(2) by simp
  have post: "add_request g (GerritChangeReviewers_init chg) input
           = \<lparr>verb = POST, path = ''/changes/'' @ py_str chg @ ''/reviewers'',
              body = Some input, headers = Some (default_headers g)\<rparr>"
    by (simp add: add_request_def GerritChangeReviewers_init_def)
  show ?thesis
    using first assms
    by (simp add: post add_cases get_world after_call_def split: reply.splits)
qed

text \<open>
  Claim C1, on the server of \<^verbatim>\<open>c1\<close>: \<^verbatim>\<open>john.doe\<close> is not yet a reviewer; \<^verbatim>\<open>add\<close> sends the
  lookup, the POST and the second lookup, and returns the entity of account 1000096,
  which is what the second \<^verbatim>\<open>get\<close> returns.
\<close>

theorem add_absent_witness:
  "py_get (JDict [(''reviewer'', JStr ''john.doe'')]) ''reviewer'' = Inr (JStr ''john.doe'')
   \<and> fst (GerritChangeReviewers_get toy_gerrit c1 (JStr ''john.doe'') (toy_world []))
     = Inl (ReviewerNotFoundError ''Reviewer john.doe does not exist'')
   \<and> map fst (wire (snd (GerritChangeReviewers_add toy_gerrit c1
                            (JDict [(''reviewer'', JStr ''john.doe'')]) (toy_world []))))
     = [\<lparr>verb = GET, path = ''/changes/c1/reviewers/john.doe'', body = None, headers = None\<rparr>,
        \<lparr>verb = POST, path = ''/changes/c1/reviewers'',
         body = Some (JDict [(''reviewer'', JStr ''john.doe'')]),
         headers = Some (JDict [(''Content-Type'', JStr ''application/json'')])\<rparr>,
        \<lparr>verb = GET, path = ''/changes/c1/reviewers/john.doe'', body = None, headers = None\<rparr>]
   \<and> fst (GerritChangeReviewers_add toy_gerrit c1 (JDict [(''reviewer'', JStr ''john.doe'')])
            (toy_world []))
     = fst (GerritChangeReviewers_get toy_gerrit c1 (JStr ''john.doe'')
              (toy_world [(''john.doe'', 1000096)]))"
  using add_absent [where g = toy_gerrit and c = c1 and w = "toy_world []"
      and input = "JDict [(''reviewer'', JStr ''john.doe'')]" and rv = "JStr ''john.doe''",
      OF _ toy_get_absent]
  by (simp add: toy_get_absent toy_add_john toy_lookup_john toy_get_john toy_add_john_run john_def)
    (simp add: lookup_request_def add_request_def)

section \<open>Classifying a failed lookup\<close>

text \<open>
  Claim C2: when the lookup of \<^verbatim>\<open>get\<close> raises an \<^verbatim>\<open>HTTPError\<close>, \<^verbatim>\<open>get\<close> raises
  \<^verbatim>\<open>ReviewerNotFoundError\<close>, with a message naming the requested account, exactly when
  the status code is 404 or 400; for every other status it raises
  \<^verbatim>\<open>GerritAPIException\<close> with the \<^verbatim>\<open>HTTPError\<close> as its cause. In both cases it raises.
\<close>

theorem get_http_failure:
  assumes "fst (handler g (server w) (lookup_request c a)) = RaisesHTTPError code"
  shows "(code = 404 \<or> code = 400 \<longrightarrow>
            fst (GerritChangeReviewers_get g c a w)
              = Inl (ReviewerNotFoundError (''Reviewer '' @ py_str a @ '' does not exist'')))
       \<and> (\<not> (code = 404 \<or> code = 400) \<longrightarrow>
            fst (GerritChangeReviewers_get g c a w) = Inl (GerritAPIException (HTTPError code)))
       \<and> ((\<exists>m. fst (GerritChangeReviewers_get g c a w) = Inl (ReviewerNotFoundError m))
            \<longleftrightarrow> (code = 404 \<or> code = 400))"
  using assms by (simp add: get_cases)

text \<open>Claim C2, on scripted replies with status 404, 400 and 500.\<close>

theorem get_http_failure_witness:
  "fst (GerritChangeReviewers_get scripted_gerrit c1 (JStr ''john.doe'')
          (scripted_world [RaisesHTTPError 404]))
     = Inl (ReviewerNotFoundError ''Reviewer john.doe does not exist'')
   \<and> fst (GerritChangeReviewers_get scripted_gerrit c1 (JStr ''john.doe'')
          (scripted_world [RaisesHTTPError 400]))
     = Inl (ReviewerNotFoundError ''Reviewer john.doe does not exist'')
   \<and> fst (GerritChangeReviewers_get scripted_gerrit c1 (JInt 1000096)
          (scripted_world [RaisesHTTPError 500]))
     = Inl (GerritAPIException (HTTPError 500))"
  using get_http_failure [where g = scripted_gerrit and c = c1 and a = "JStr ''john.doe''"
      and w = "scripted_world [RaisesHTTPError 404]" and code = 404]
    get_http_failure [where g = scripted_gerrit and c = c1 and a = "JStr ''john.doe''"
      and w = "scripted_world [RaisesHTTPError 400]" and code = 400]
    get_http_failure [where g = scripted_gerrit and c = c1 and a = "JInt 1000096"
      and w = "scripted_world [RaisesHTTPError 500]" and code = 500]
  by simp

section \<open>Adding a reviewer who is already on the change\<close>

text \<open>
  Claim C3: when the first \<^verbatim>\<open>get\<close> of \<^verbatim>\<open>add\<close> resolves the reviewer, \<^verbatim>\<open>add\<close> raises
  \<^verbatim>\<open>ReviewerAlreadyExistsError\<close>. The lookup, a GET, is the only request of the call: no
  POST is sent. The server is left in the state in which that one lookup left it, so a
  server whose lookups change nothing is unchanged by the call.
\<close>

theorem add_present:
  assumes "py_get input ''reviewer'' = Inr rv"
      and "GerritChangeReviewers_get g c rv w = (Inr found, w1)"
  shows "fst (GerritChangeReviewers_add g c input w)
           = Inl (ReviewerAlreadyExistsError (''Reviewer '' @ py_str rv @ '' already exists''))
       \<and> wire (snd (GerritChangeReviewers_add g c input w))
           = wire w @ [(lookup_request c rv, fst (handler g (server w) (lookup_request c rv)))]
       \<and> list_all (\<lambda>x. verb (fst x) = GET) (news w (snd (GerritChangeReviewers_add g c input w)))
       \<and> server (snd (GerritChangeReviewers_add g c input w))
           = snd (handler g (server w) (lookup_request c rv))
       \<and> (snd (handler g (server w) (lookup_request c rv)) = server w
            \<longrightarrow> server (snd (GerritChangeReviewers_add g c input w)) = server w)"
proof -
  have "wire w1 = wire w @ [(lookup_request c rv, fst (handler g (server w) (lookup_request c rv)))]"
    and "server w1 = snd (handler g (server w) (lookup_request c rv))"
    using get_world [of g c rv w] assms(2) by simp_all
  then show ?thesis
    using assms by (simp add: add_cases news_def lookup_request_def)
qed

text \<open>
  Claim C3, on the server of \<^verbatim>\<open>c1\<close> with \<^verbatim>\<open>john.doe\<close> already a reviewer: \<^verbatim>\<open>add\<close> raises,
  the wire holds the one lookup, and the list of reviewers is as before.
\<close>

theorem add_present_witness:
  "fst (GerritChangeReviewers_add toy_gerrit c1 (JDict [(''reviewer'', JStr ''john.doe'')])
          (toy_world [(''john.doe'', 1000096)]))
     = Inl (ReviewerAlreadyExistsError ''Reviewer john.doe already exists'')
   \<and> map fst (wire (snd (GerritChangeReviewers_add toy_gerrit c1
                  (JDict [(''reviewer'', JStr ''john.doe'')]) (toy_world [(''john.doe'', 1000096)]))))
     = [\<lparr>verb = GET, path = ''/changes/c1/reviewers/john.doe'', body = None, headers = None\<rparr>]
   \<and> server (snd (GerritChangeReviewers_add toy_gerrit c1
                  (JDict [(''reviewer'', JStr ''john.doe'')]) (toy_world [(''john.doe'', 1000096)])))
     = [(''john.doe'', 1000096)]"
  using add_present [where g = toy_gerrit and c = c1 and w = "toy_world [(''john.doe'', 1000096)]"
      and input = "JDict [(''reviewer'', JStr ''john.doe'')]" and rv = "JStr ''john.doe''",
      OF _ toy_get_john]
  by (simp add: toy_lookup_john) (simp add: lookup_request_def)

section \<open>The entity that \<^verbatim>\<open>get\<close> returns\<close>

text \<open>
  Claim C4: when the lookup of \<^verbatim>\<open>get\<close> succeeds with a list whose first record is a
  dictionary, \<^verbatim>\<open>get\<close> returns a reviewer entity whose \<^verbatim>\<open>account\<close> is what
  \<^verbatim>\<open>.get("_account_id")\<close> reads from that first record and whose \<^verbatim>\<open>change\<close> is the change
  of the collection.
\<close>

theorem get_success:
  assumes "fst (handler g (server w) (lookup_request c a)) = Returns (JList (JDict d # rest))"
  shows "\<exists>r. fst (GerritChangeReviewers_get g c a w) = Inr r
           \<and> py_get (JDict d) ''_account_id'' = Inr (account r)
           \<and> change r = rs_change c"
  using assms by (simp add: get_cases)

text \<open>Claim C4, on the server of \<^verbatim>\<open>c1\<close>: the lookup of \<^verbatim>\<open>john.doe\<close> gives account 1000096.\<close>

theorem get_success_witness:
  "\<exists>r. fst (GerritChangeReviewers_get toy_gerrit c1 (JStr ''john.doe'')
             (toy_world [(''john.doe'', 1000096)])) = Inr r
       \<and> account r = JInt 1000096 \<and> change r = JStr ''c1''"
  using get_success [where g = toy_gerrit and c = c1 and a = "JStr ''john.doe''"
      and w = "toy_world [(''john.doe'', 1000096)]"
      and d = "[(''_account_id'', JInt 1000096), (''username'', JStr ''john.doe'')]"
      and rest = "[]"]
  by (auto simp add: toy_lookup_john)

section \<open>No entity without a confirming lookup\<close>

text \<open>
  Claim C5: an entity returned by \<^verbatim>\<open>get\<close> or by \<^verbatim>\<open>add\<close> comes from a lookup of that
  reviewer on that change which the server answered, in the same call, with a list whose
  first record gives the account of the entity. For \<^verbatim>\<open>get\<close> that lookup is the one
  exchange of the call; for \<^verbatim>\<open>add\<close> it is the third and last, after a lookup answered 404
  or 400 and a POST that returned.
\<close>

theorem entity_confirmed:
  "(GerritChangeReviewers_get g c a w = (Inr r, w') \<longrightarrow>
      (\<exists>d rest. wire w' = wire w @ [(lookup_request c a, Returns (JList (JDict d # rest)))]
         \<and> py_get (JDict d) ''_account_id'' = Inr (account r) \<and> change r = rs_change c))
   \<and> (GerritChangeReviewers_add g c input w = (Inr r, w') \<longrightarrow>
      (\<exists>rv code v d rest. py_get input ''reviewer'' = Inr rv \<and> (code = 404 \<or> code = 400)
         \<and> wire w' = wire w @
              [(lookup_request c rv, RaisesHTTPError code),
               (add_request g c input, Returns v),
               (lookup_request c rv, Returns (JList (JDict d # rest)))]
         \<and> py_get (JDict d) ''_account_id'' = Inr (account r) \<and> change r = rs_change c))"
proof (intro conjI impI)
  assume get: "GerritChangeReviewers_get g c a w = (Inr r, w')"
  then have "fst (GerritChangeReviewers_get g c a w) = Inr r" by simp
  from get_entity [OF this] obtain d rest where
    rep: "fst (handler g (server w) (lookup_request c a)) = Returns (JList (JDict d # rest))"
    and acc: "py_get (JDict d) ''_account_id'' = Inr (account r)" and chg: "change r = rs_change c"
    by blast
  have "wire w' = wire w @ [(lookup_request c a, Returns (JList (JDict d # rest)))]"
    using get_world [of g c a w] get rep by simp
  with acc chg
  show "\<exists>d rest. wire w' = wire w @ [(lookup_request c a, Returns (JList (JDict d # rest)))]
         \<and> py_get (JDict d) ''_account_id'' = Inr (account r) \<and> change r = rs_change c"
    by blast
next
  assume add: "GerritChangeReviewers_add g c input w = (Inr r, w')"
  then obtain rv where rv: "py_get input ''reviewer'' = Inr rv"
    by (auto simp add: add_cases split: sum.splits)
  obtain x w1 where first: "GerritChangeReviewers_get g c rv w = (x, w1)"
    by (cases "GerritChangeReviewers_get g c rv w") blast
  from add rv first obtain m where m: "x = Inl (ReviewerNotFoundError m)"
    by (auto simp add: add_cases split: sum.splits exn.splits)
  from first m have "fst (GerritChangeReviewers_get g c rv w) = Inl (ReviewerNotFoundError m)"
    by simp
  from get_not_found [OF this] obtain code where code: "code = 404 \<or> code = 400"
    and rep1: "fst (handler g (server w) (lookup_request c rv)) = RaisesHTTPError code"
    by blast
  have wire1: "wire w1 = wire w @ [(lookup_request c rv, RaisesHTTPError code)]"
    using get_world [of g c rv w] first rep1 by simp
  let ?w2 = "after_call g (add_request g c input) w1"
  from add rv first m obtain v where
    rep2: "fst (handler g (server w1) (add_request g c input)) = Returns v"
    and second: "GerritChangeReviewers_get g c rv ?w2 = (Inr r, w')"
    by (auto simp add: add_cases split: reply.splits)
  have wire2: "wire ?w2 = wire w1 @ [(add_request g c input, Returns v)]"
    using rep2 by (simp add: after_call_def)
  from second have "fst (GerritChangeReviewers_get g c rv ?w2) = Inr r" by simp
  from get_entity [OF this] obtain d rest where
    rep3: "fst (handler g (server ?w2) (lookup_request c rv)) = Returns (JList (JDict d # rest))"
    and acc: "py_get (JDict d) ''_account_id'' = Inr (account r)" and chg: "change r = rs_change c"
    by blast
  have "wire w' = wire ?w2 @ [(lookup_request c rv, Returns (JList (JDict d # rest)))]"
    using get_world [of g c rv ?w2] second rep3 by simp
  with wire1 wire2 have "wire w' = wire w @
              [(lookup_request c rv, RaisesHTTPError code),
               (add_request g c input, Returns v),
               (lookup_request c rv, Returns (JList (JDict d # rest)))]"
    by simp
  with rv code acc chg
  show "\<exists>rv code v d rest. py_get input ''reviewer'' = Inr rv \<and> (code = 404 \<or> code = 400)
         \<and> wire w' = wire w @
              [(lookup_request c rv, RaisesHTTPError code),
               (add_request g c input, Returns v),
               (lookup_request c rv, Returns (JList (JDict d # rest)))]
         \<and> py_get (JDict d) ''_account_id'' = Inr (account r) \<and> change r = rs_change c"
    by blast
qed

text \<open>
  Claim C5, on the server of \<^verbatim>\<open>c1\<close>: the entity that \<^verbatim>\<open>add\<close> returns for \<^verbatim>\<open>john.doe\<close> has
  the account of the record in the last exchange of the call, and the entity that \<^verbatim>\<open>get\<close>
  returns has the account of the record of its lookup.
\<close>

theorem entity_confirmed_witness:
  "fst (GerritChangeReviewers_add toy_gerrit c1 (JDict [(''reviewer'', JStr ''john.doe'')])
          (toy_world [])) = Inr john
   \<and> last (wire (snd (GerritChangeReviewers_add toy_gerrit c1
                        (JDict [(''reviewer'', JStr ''john.doe'')]) (toy_world []))))
     = (lookup_request c1 (JStr ''john.doe''),
        Returns (JList [JDict [(''_account_id'', JInt 1000096), (''username'', JStr ''john.doe'')]]))
   \<and> fst (GerritChangeReviewers_get toy_gerrit c1 (JStr ''john.doe'')
            (toy_world [(''john.doe'', 1000096)])) = Inr john
   \<and> map fst (wire (snd (GerritChangeReviewers_get toy_gerrit c1 (JStr ''john.doe'')
                            (toy_world [(''john.doe'', 1000096)]))))
     = [lookup_request c1 (JStr ''john.doe'')]
   \<and> py_get (JDict [(''_account_id'', JInt 1000096), (''username'', JStr ''john.doe'')])
        ''_account_id'' = Inr (account john)"
proof -
  let ?input = "JDict [(''reviewer'', JStr ''john.doe'')]"
  let ?entry = "[(''_account_id'', JInt 1000096), (''username'', JStr ''john.doe'')]"
  let ?added = "GerritChangeReviewers_add toy_gerrit c1 ?input (toy_world [])"
  let ?got = "GerritChangeReviewers_get toy_gerrit c1 (JStr ''john.doe'')
                (toy_world [(''john.doe'', 1000096)])"
  have added: "?added = (Inr john, snd ?added)"
    by (simp add: toy_add_john_run)
  have got: "?got = (Inr john, snd ?got)"
    by (simp add: toy_get_john john_def)
  from entity_confirmed [where g = toy_gerrit and c = c1 and input = ?input and r = john
      and a = "JStr ''john.doe''" and w = "toy_world []" and w' = "snd ?added"] added
  obtain rv code v d rest where
    "wire (snd ?added)
       = wire (toy_world []) @
         [(lookup_request c1 rv, RaisesHTTPError code), (add_request toy_gerrit c1 ?input, Returns v),
          (lookup_request c1 rv, Returns (JList (JDict d # rest)))]"
    and field: "py_get (JDict d) ''_account_id'' = Inr (account john)"
    by blast
  then have "d = ?entry"
    by (auto simp add: toy_add_john_run lookup_request_def)
  with field have "py_get (JDict ?entry) ''_account_id'' = Inr (account john)"
    by simp
  moreover
  from entity_confirmed [where g = toy_gerrit and c = c1 and input = ?input and r = john
      and a = "JStr ''john.doe''" and w = "toy_world [(''john.doe'', 1000096)]"
      and w' = "snd ?got"] got
  obtain d' rest' where
    "wire (snd ?got) = wire (toy_world [(''john.doe'', 1000096)]) @
         [(lookup_request c1 (JStr ''john.doe''), Returns (JList (JDict d' # rest')))]"
    by blast
  then have "map fst (wire (snd ?got)) = [lookup_request c1 (JStr ''john.doe'')]"
    by simp
  moreover have "last (wire (snd ?added))
     = (lookup_request c1 (JStr ''john.doe''), Returns (JList [JDict ?entry]))"
    by (simp add: toy_add_john_run)
  moreover have "fst ?added = Inr john"
    by (simp add: toy_add_john_run)
  moreover have "fst ?got = Inr john"
    by (simp add: toy_get_john john_def)
  ultimately show ?thesis
    by blast
qed

section \<open>Removing a reviewer or a vote\<close>

text \<open>
  Claim C6: for an entity built for an account and a change, \<^verbatim>\<open>delete\<close> without a payload
  sends exactly one DELETE to \<^verbatim>\<open>/changes/{change}/reviewers/{account}\<close> and with a payload
  exactly one POST, carrying the payload, to that path followed by \<^verbatim>\<open>/delete\<close>;
  \<^verbatim>\<open>delete_vote\<close> without a payload sends exactly one DELETE to that path followed by
  \<^verbatim>\<open>/votes/{label}\<close> and with a payload exactly one POST to the latter followed by
  \<^verbatim>\<open>/delete\<close>. Which of the two is sent depends only on whether the payload is \<^verbatim>\<open>None\<close>.
\<close>

theorem delete_wire_call:
  assumes "GerritChangeReviewer_init acc chg w0 = (Inr self, w0')"
  shows "(\<exists>rep. wire (snd (snd (GerritChangeReviewer_delete g self input w)))
            = wire w @
              [(if input = JNull
                then \<lparr>verb = DELETE, path = reviewer_path chg acc, body = None, headers = None\<rparr>
                else \<lparr>verb = POST, path = reviewer_path chg acc @ ''/delete'',
                      body = Some input, headers = Some (default_headers g)\<rparr>, rep)])
       \<and> (\<exists>rep. wire (snd (snd (GerritChangeReviewer_delete_vote g self label input w)))
            = wire w @
              [(if input = JNull
                then \<lparr>verb = DELETE, path = reviewer_path chg acc @ ''/votes/'' @ py_str label,
                      body = None, headers = None\<rparr>
                else \<lparr>verb = POST,
                      path = reviewer_path chg acc @ ''/votes/'' @ py_str label @ ''/delete'',
                      body = Some input, headers = Some (default_headers g)\<rparr>, rep)])"
proof -
  from assms have "endpoint self = reviewer_path chg acc"
    by (auto simp add: init_entity)
  then show ?thesis
    by (simp add: delete_cases delete_vote_cases after_call_def delete_request_def)
qed

text \<open>
  Claim C6, for the entity of \<^verbatim>\<open>john.doe\<close>: the four requests, without a payload and with
  the payload \<^verbatim>\<open>{"notify": "NONE"}\<close>.
\<close>

theorem delete_wire_call_witness:
  "map fst (wire (snd (snd (GerritChangeReviewer_delete toy_gerrit john JNull (toy_world [])))))
     = [\<lparr>verb = DELETE, path = ''/changes/c1/reviewers/1000096'', body = None, headers = None\<rparr>]
   \<and> map fst (wire (snd (snd (GerritChangeReviewer_delete toy_gerrit john
                                 (JDict [(''notify'', JStr ''NONE'')]) (toy_world [])))))
     = [\<lparr>verb = POST, path = ''/changes/c1/reviewers/1000096/delete'',
         body = Some (JDict [(''notify'', JStr ''NONE'')]),
         headers = Some (JDict [(''Content-Type'', JStr ''application/json'')])\<rparr>]
   \<and> map fst (wire (snd (snd (GerritChangeReviewer_delete_vote toy_gerrit john
                                 (JStr ''Code-Review'') JNull (toy_world [])))))
     = [\<lparr>verb = DELETE, path = ''/changes/c1/reviewers/1000096/votes/Code-Review'',
         body = None, headers = None\<rparr>]
   \<and> map fst (wire (snd (snd (GerritChangeReviewer_delete_vote toy_gerrit john
                                 (JStr ''Code-Review'') (JDict [(''notify'', JStr ''NONE'')])
                                 (toy_world [])))))
     = [\<lparr>verb = POST, path = ''/changes/c1/reviewers/1000096/votes/Code-Review/delete'',
         body = Some (JDict [(''notify'', JStr ''NONE'')]),
         headers = Some (JDict [(''Content-Type'', JStr ''application/json'')])\<rparr>]"
  using delete_wire_call [OF john_init [of "[]"], of toy_gerrit JNull "toy_world []"
      "JStr ''Code-Review''"]
    delete_wire_call [OF john_init [of "[]"], of toy_gerrit
      "JDict [(''notify'', JStr ''NONE'')]" "toy_world []" "JStr ''Code-Review''"]
  by (auto simp add: john_path)

section \<open>An input without the field \<^verbatim>\<open>reviewer\<close>\<close>

text \<open>
  Claim C7, as the specification states it: \<^verbatim>\<open>add\<close> rejects an input without the field
  \<^verbatim>\<open>reviewer\<close> instead of sending requests built from a missing identifier. It does not:
  \<^verbatim>\<open>input_.get("reviewer")\<close> reads \<^verbatim>\<open>None\<close> from the empty dictionary, and \<^verbatim>\<open>add\<close> looks
  up the reviewer \<^verbatim>\<open>None\<close> and then posts the input.
\<close>

theorem add_without_reviewer_counterexample:
  "py_get (JDict []) ''reviewer'' = Inr JNull
   \<and> map fst (wire (snd (GerritChangeReviewers_add toy_gerrit c1 (JDict []) (toy_world []))))
     = [\<lparr>verb = GET, path = ''/changes/c1/reviewers/None'', body = None, headers = None\<rparr>,
        \<lparr>verb = POST, path = ''/changes/c1/reviewers'', body = Some (JDict []),
         headers = Some (JDict [(''Content-Type'', JStr ''application/json'')])\<rparr>]"
  by (simp add: add_cases toy_get_absent toy_add_empty after_call_def)
    (simp add: lookup_request_def add_request_def)

text \<open>
  Claim C7, amended: \<^verbatim>\<open>add\<close> does not validate its input. For a dictionary without the
  field \<^verbatim>\<open>reviewer\<close> it takes the identifier to be \<^verbatim>\<open>None\<close> and goes on: the first request
  of the call is the lookup GET to the endpoint of the collection followed by \<^verbatim>\<open>/None\<close>.
  Only an input that is not a dictionary fails before any request, with the
  \<^verbatim>\<open>AttributeError\<close> of the missing method \<^verbatim>\<open>get\<close>.
\<close>

theorem add_without_reviewer:
  "(map_of d ''reviewer'' = None \<longrightarrow>
      (\<exists>rep rest. wire (snd (GerritChangeReviewers_add g c (JDict d) w))
          = wire w @ (\<lparr>verb = GET, path = rs_endpoint c @ ''/None'', body = None,
                       headers = None\<rparr>, rep) # rest))
   \<and> ((\<forall>d. input \<noteq> JDict d) \<longrightarrow>
        GerritChangeReviewers_add g c input w = (Inl AttributeError, w))"
proof (intro conjI impI)
  assume none: "map_of d ''reviewer'' = None"
  let ?q = "lookup_request c JNull"
  have q: "?q = \<lparr>verb = GET, path = rs_endpoint c @ ''/None'', body = None, headers = None\<rparr>"
    by (simp add: lookup_request_def)
  obtain x w1 where first: "GerritChangeReviewers_get g c JNull w = (x, w1)"
    by (cases "GerritChangeReviewers_get g c JNull w") blast
  have wire1: "wire w1 = wire w @ [(?q, fst (handler g (server w) ?q))]"
    using get_world [of g c JNull w] first by simp
  have "\<exists>rest. wire (snd (GerritChangeReviewers_add g c (JDict d) w))
          = wire w @ (?q, fst (handler g (server w) ?q)) # rest"
    using none first wire1
    by (auto simp add: add_cases get_world after_call_def
        split: sum.splits exn.splits reply.splits)
  then show "\<exists>rep rest. wire (snd (GerritChangeReviewers_add g c (JDict d) w))
          = wire w @ (\<lparr>verb = GET, path = rs_endpoint c @ ''/None'', body = None,
                       headers = None\<rparr>, rep) # rest"
    unfolding q by blast
next
  assume "\<forall>d. input \<noteq> JDict d"
  then show "GerritChangeReviewers_add g c input w = (Inl AttributeError, w)"
    by (cases input) (simp_all add: add_cases)
qed

text \<open>
  Claim C7, on the server of \<^verbatim>\<open>c1\<close>: the input \<^verbatim>\<open>{"state": "CC"}\<close> starts with the lookup
  of \<^verbatim>\<open>None\<close>, and the input \<^verbatim>\<open>None\<close> fails before any request.
\<close>

theorem add_without_reviewer_witness:
  "map_of [(''state'', JStr ''CC'')] ''reviewer'' = None
   \<and> hd (wire (snd (GerritChangeReviewers_add toy_gerrit c1 (JDict [(''state'', JStr ''CC'')])
                      (toy_world []))))
     = (\<lparr>verb = GET, path = ''/changes/c1/reviewers/None'', body = None, headers = None\<rparr>,
        RaisesHTTPError 404)
   \<and> GerritChangeReviewers_add toy_gerrit c1 JNull (toy_world []) = (Inl AttributeError, toy_world [])"
  using add_without_reviewer [where g = toy_gerrit and c = c1 and w = "toy_world []"
      and d = "[(''state'', JStr ''CC'')]" and input = JNull]
  by (simp add: add_cases toy_get_absent toy_add_cc after_call_def lookup_request_def)

section \<open>Setting the name of an account\<close>

text \<open>
  Claim C8: when \<^verbatim>\<open>set_name\<close> returns, exactly one request has been sent, a PUT with the
  input as body to the URL of the endpoint \<^verbatim>\<open>/accounts/{username}/name\<close>; the value
  returned is the decoded body of its response; the attribute \<^verbatim>\<open>name\<close> of the model is
  that value; the attributes \<^verbatim>\<open>username\<close>, \<^verbatim>\<open>email\<close>, \<^verbatim>\<open>registered_on\<close> and \<^verbatim>\<open>_account_id\<close>
  are as before.
\<close>

theorem set_name_frame:
  assumes "set_name chk g self input w = (Inr result, self', w')"
  shows "(\<exists>response.
            rq_wire w' = rq_wire w @
              [(\<lparr>verb = PUT,
                 path = get_endpoint_url g (''/accounts/'' @ py_str (username self) @ ''/name''),
                 body = Some input, headers = Some (rq_default_headers g)\<rparr>, Inr response)]
            \<and> decode_response g response = Inr result)
       \<and> name self' = result
       \<and> username self' = username self
       \<and> email self' = email self
       \<and> registered_on self' = registered_on self
       \<and> account_id self' = account_id self"
  using assms
  by (auto simp add: set_name_def requester_put_def Let_def
      split: option.splits sum.splits prod.splits)

text \<open>
  Claim C8, for the account \<^verbatim>\<open>john.doe\<close>: the PUT, the returned name, and the model with
  the new name and the old user name.
\<close>

theorem set_name_frame_witness:
  "set_name check_dict toy_client jdoe (JDict [(''name'', JStr ''John F. Doe'')])
      \<lparr>rq_server = (), rq_wire = []\<rparr>
     = (Inr (JStr ''John F. Doe''), jdoe\<lparr>name := JStr ''John F. Doe''\<rparr>,
        \<lparr>rq_server = (),
         rq_wire = [(\<lparr>verb = PUT, path = ''https://gerrit.example.org/accounts/john.doe/name'',
                      body = Some (JDict [(''name'', JStr ''John F. Doe'')]),
                      headers = Some (JDict [(''Content-Type'', JStr ''application/json'')])\<rparr>,
                     Inr (200, JStr ''John F. Doe''))]\<rparr>)
   \<and> username (jdoe\<lparr>name := JStr ''John F. Doe''\<rparr>) = JStr ''john.doe''"
proof -
  have run: "set_name check_dict toy_client jdoe (JDict [(''name'', JStr ''John F. Doe'')])
      \<lparr>rq_server = (), rq_wire = []\<rparr>
     = (Inr (JStr ''John F. Doe''), jdoe\<lparr>name := JStr ''John F. Doe''\<rparr>,
        \<lparr>rq_server = (),
         rq_wire = [(\<lparr>verb = PUT, path = ''https://gerrit.example.org/accounts/john.doe/name'',
                      body = Some (JDict [(''name'', JStr ''John F. Doe'')]),
                      headers = Some (JDict [(''Content-Type'', JStr ''application/json'')])\<rparr>,
                     Inr (200, JStr ''John F. Doe''))]\<rparr>)"
    by (simp add: set_name_def requester_put_def check_dict_def toy_client_def toy_requester_def
        toy_decode_def jdoe_def)
  from set_name_frame [OF run]
  have "username (jdoe\<lparr>name := JStr ''John F. Doe''\<rparr>) = username jdoe"
    by simp
  with run show ?thesis by (simp add: jdoe_def)
qed

section \<open>A lookup that succeeds with an empty list\<close>

text \<open>
  Claim C9: when the lookup of \<^verbatim>\<open>get\<close> returns an empty list, \<^verbatim>\<open>get\<close> raises \<^verbatim>\<open>IndexError\<close>,
  from \<^verbatim>\<open>result[0]\<close>. Whatever a successful lookup returns, \<^verbatim>\<open>get\<close> raises neither
  \<^verbatim>\<open>ReviewerNotFoundError\<close> nor \<^verbatim>\<open>GerritAPIException\<close>: both come from an \<^verbatim>\<open>HTTPError\<close> of
  the lookup only.
\<close>

theorem get_empty_response:
  "(fst (handler g (server w) (lookup_request c a)) = Returns (JList [])
      \<longrightarrow> fst (GerritChangeReviewers_get g c a w) = Inl IndexError)
   \<and> (\<forall>v. fst (handler g (server w) (lookup_request c a)) = Returns v
      \<longrightarrow> (\<forall>m. fst (GerritChangeReviewers_get g c a w) \<noteq> Inl (ReviewerNotFoundError m))
        \<and> (\<forall>e. fst (GerritChangeReviewers_get g c a w) \<noteq> Inl (GerritAPIException e)))"
  by (auto simp add: get_cases split: sum.splits dest: py_index0_error py_get_error)

text \<open>Claim C9, on a scripted reply: the empty list gives \<^verbatim>\<open>IndexError\<close>.\<close>

theorem get_empty_response_witness:
  "fst (GerritChangeReviewers_get scripted_gerrit c1 (JStr ''john.doe'')
          (scripted_world [Returns (JList [])])) = Inl IndexError"
  using get_empty_response [where g = scripted_gerrit and c = c1 and a = "JStr ''john.doe''"
      and w = "scripted_world [Returns (JList [])]"]
  by simp

section \<open>The identity of an entity\<close>

text \<open>
  Claim C10: an entity built for an account and a change has that account, that change
  and the endpoint \<^verbatim>\<open>/changes/{change}/reviewers/{account}\<close>; \<^verbatim>\<open>delete\<close>, \<^verbatim>\<open>list_votes\<close> and
  \<^verbatim>\<open>delete_vote\<close> leave the entity as it is, and each sends one request, to a path that
  begins with that endpoint.
\<close>

theorem entity_identity:
  assumes "GerritChangeReviewer_init acc chg w0 = (Inr self, w0')"
  shows "account self = acc \<and> change self = chg \<and> endpoint self = reviewer_path chg acc
       \<and> fst (snd (GerritChangeReviewer_delete g self input w)) = self
       \<and> fst (snd (GerritChangeReviewer_list_votes g self w)) = self
       \<and> fst (snd (GerritChangeReviewer_delete_vote g self label input w)) = self
       \<and> list_all (\<lambda>x. prefix (reviewer_path chg acc) (path (fst x)))
           (news w (snd (snd (GerritChangeReviewer_delete g self input w))))
       \<and> list_all (\<lambda>x. prefix (reviewer_path chg acc) (path (fst x)))
           (news w (snd (snd (GerritChangeReviewer_list_votes g self w))))
       \<and> list_all (\<lambda>x. prefix (reviewer_path chg acc) (path (fst x)))
           (news w (snd (snd (GerritChangeReviewer_delete_vote g self label input w))))
       \<and> length (news w (snd (snd (GerritChangeReviewer_delete g self input w)))) = 1
       \<and> length (news w (snd (snd (GerritChangeReviewer_list_votes g self w)))) = 1
       \<and> length (news w (snd (snd (GerritChangeReviewer_delete_vote g self label input w)))) = 1"
proof -
  from assms have self: "self = \<lparr>account = acc, change = chg, endpoint = reviewer_path chg acc\<rparr>"
    by (auto simp add: init_entity)
  show ?thesis
    by (simp add: self delete_cases delete_vote_cases list_votes_cases after_call_def
        delete_request_def news_def)
qed

text \<open>
  Claim C10, for the entity of \<^verbatim>\<open>john.doe\<close>: after \<^verbatim>\<open>delete_vote\<close> the entity is the same,
  and the one request went to a path below its endpoint.
\<close>

theorem entity_identity_witness:
  "fst (snd (GerritChangeReviewer_delete_vote toy_gerrit john (JStr ''Code-Review'') JNull
               (toy_world [(''john.doe'', 1000096)]))) = john
   \<and> map (path \<circ> fst) (news (toy_world [(''john.doe'', 1000096)])
        (snd (snd (GerritChangeReviewer_delete_vote toy_gerrit john (JStr ''Code-Review'') JNull
               (toy_world [(''john.doe'', 1000096)])))))
     = [''/changes/c1/reviewers/1000096/votes/Code-Review'']
   \<and> prefix (reviewer_path (JStr ''c1'') (JInt 1000096))
        ''/changes/c1/reviewers/1000096/votes/Code-Review''"
  using entity_identity [OF john_init [of "[(''john.doe'', 1000096)]"], of toy_gerrit JNull
      "toy_world [(''john.doe'', 1000096)]" "JStr ''Code-Review''"]
  by (simp add: delete_vote_cases after_call_def delete_request_def news_def john_def john_path)

end
